theory Spec2Isabelle
  imports Main
begin

section \<open>Python strings\<close>

text \<open>
  A Python \<open>str\<close> is a sequence of Unicode code points; it is modelled as a list of
  natural numbers. \<open>U\<close> turns an ASCII literal into that representation.
  White space (\<open>str.isspace\<close>, also \<open>\s\<close> of the \<open>re\<close> module on \<open>str\<close> patterns) and the
  line boundaries of \<open>str.splitlines\<close> are the full Unicode sets. The word characters of
  \<open>\w\<close> are exact below code point 256; from 256 on every code point that is not white
  space is taken as a word character (exact on letters and digits of all scripts).
\<close>

type_synonym pystr = "nat list"

definition U :: "string \<Rightarrow> pystr" where
  "U s = map of_char s"

definition isspace :: "nat \<Rightarrow> bool" where
  "isspace c \<longleftrightarrow>
     (9 \<le> c \<and> c \<le> 13) \<or> (28 \<le> c \<and> c \<le> 32) \<or> c = 133 \<or> c = 160 \<or> c = 5760 \<or>
     (8192 \<le> c \<and> c \<le> 8202) \<or> c = 8232 \<or> c = 8233 \<or> c = 8239 \<or> c = 8287 \<or> c = 12288"

definition is_linebreak :: "nat \<Rightarrow> bool" where
  "is_linebreak c \<longleftrightarrow>
     (10 \<le> c \<and> c \<le> 13) \<or> (28 \<le> c \<and> c \<le> 30) \<or> c = 133 \<or> c = 8232 \<or> c = 8233"

definition is_word :: "nat \<Rightarrow> bool" where
  "is_word c \<longleftrightarrow>
     (48 \<le> c \<and> c \<le> 57) \<or> (65 \<le> c \<and> c \<le> 90) \<or> c = 95 \<or> (97 \<le> c \<and> c \<le> 122) \<or>
     c = 170 \<or> c = 178 \<or> c = 179 \<or> c = 181 \<or> c = 185 \<or> c = 186 \<or>
     (188 \<le> c \<and> c \<le> 190) \<or> (192 \<le> c \<and> c \<le> 214) \<or> (216 \<le> c \<and> c \<le> 246) \<or>
     (248 \<le> c \<and> c \<le> 255) \<or> (256 \<le> c \<and> \<not> isspace c)"

fun startswith :: "'a list \<Rightarrow> 'a list \<Rightarrow> bool" where
  "startswith s [] = True"
| "startswith [] (p # ps) = False"
| "startswith (x # xs) (p # ps) = (x = p \<and> startswith xs ps)"

definition endswith :: "'a list \<Rightarrow> 'a list \<Rightarrow> bool" where
  "endswith s p = startswith (rev s) (rev p)"

text \<open>\<open>sub in s\<close> for strings.\<close>

fun contains :: "'a list \<Rightarrow> 'a list \<Rightarrow> bool" where
  "contains [] sub = (sub = [])"
| "contains (x # xs) sub = (startswith (x # xs) sub \<or> contains xs sub)"

definition lstrip :: "pystr \<Rightarrow> pystr" where
  "lstrip s = dropWhile isspace s"

definition rstrip :: "pystr \<Rightarrow> pystr" where
  "rstrip s = rev (dropWhile isspace (rev s))"

definition strip :: "pystr \<Rightarrow> pystr" where
  "strip s = rstrip (lstrip s)"

text \<open>
  \<open>s.replace(old, new)\<close> for a non-empty \<open>old\<close> (the only use in the program): the
  occurrences are replaced from left to right without overlap. The counter is the number
  of characters of the current occurrence still to be skipped.
\<close>

fun replace_from :: "pystr \<Rightarrow> pystr \<Rightarrow> nat \<Rightarrow> pystr \<Rightarrow> pystr" where
  "replace_from old new k [] = []"
| "replace_from old new (Suc k) (x # xs) = replace_from old new k xs"
| "replace_from old new 0 (x # xs) =
     (if startswith (x # xs) old then new @ replace_from old new (length old - 1) xs
      else x # replace_from old new 0 xs)"

definition replace :: "pystr \<Rightarrow> pystr \<Rightarrow> pystr \<Rightarrow> pystr" where
  "replace s old new = replace_from old new 0 s"

text \<open>\<open>s.split(sep)\<close> for a one-character separator: never the empty list.\<close>

fun split_on :: "nat \<Rightarrow> pystr \<Rightarrow> pystr list" where
  "split_on sep [] = [[]]"
| "split_on sep (x # xs) =
     (if x = sep then [] # split_on sep xs
      else (case split_on sep xs of [] \<Rightarrow> [[x]] | l # ls \<Rightarrow> (x # l) # ls))"

fun join :: "pystr \<Rightarrow> pystr list \<Rightarrow> pystr" where
  "join sep [] = []"
| "join sep [l] = l"
| "join sep (l # l' # ls) = l @ sep @ join sep (l' # ls)"

text \<open>
  \<open>s.splitlines()\<close>: the text is cut at every line boundary, \<open>\r\n\<close> counting as one, and
  a boundary at the very end opens no further line. The first argument is the current
  line, reversed.
\<close>

fun splitlines_from :: "pystr \<Rightarrow> pystr \<Rightarrow> pystr list" where
  "splitlines_from cur [] = (if cur = [] then [] else [rev cur])"
| "splitlines_from cur (x # xs) =
     (if x = 13 then
        (case xs of
           [] \<Rightarrow> [rev cur]
         | y # ys \<Rightarrow> if y = 10 then rev cur # splitlines_from [] ys
                     else rev cur # splitlines_from [] (y # ys))
      else if is_linebreak x then rev cur # splitlines_from [] xs
      else splitlines_from (x # cur) xs)"

definition splitlines :: "pystr \<Rightarrow> pystr list" where
  "splitlines s = splitlines_from [] s"

text \<open>\<open>s.count('\n')\<close>.\<close>

definition count_nl :: "pystr \<Rightarrow> nat" where
  "count_nl s = count_list s 10"

section \<open>Regular expressions of the \<open>re\<close> module\<close>

text \<open>
  The constructs the two patterns of \<open>JavaParser\<close> use: character sets, literals,
  concatenation, alternation, the greedy \<open>?\<close>, \<open>*\<close> and \<open>+\<close>, the lazy \<open>*?\<close> and named groups.
  \<open>rm r s c\<close> lists, in the order in which the backtracking matcher of \<open>re\<close> tries
  them, the ways in which \<open>r\<close> matches a prefix of \<open>s\<close>: each is the rest of the text
  after the match with the groups set so far. The match the module reports is the first
  of the list. An iteration of a star that consumes nothing is not repeated; the bound on
  the iterations is the length of the text.
\<close>

datatype regex =
    Sym "nat \<Rightarrow> bool"
  | Lit pystr
  | Seq regex regex
  | Alt regex regex
  | Opt regex
  | Star regex
  | Plus regex
  | LazyStar regex
  | Group string regex

type_synonym caps = "(string \<times> pystr) list"

type_synonym matcher = "pystr \<Rightarrow> caps \<Rightarrow> (pystr \<times> caps) list"

fun iter_greedy :: "nat \<Rightarrow> matcher \<Rightarrow> matcher" where
  "iter_greedy 0 f s c = [(s, c)]"
| "iter_greedy (Suc n) f s c =
     concat (map (\<lambda>(s', c'). if length s' < length s then iter_greedy n f s' c' else [])
                 (f s c)) @ [(s, c)]"

fun iter_lazy :: "nat \<Rightarrow> matcher \<Rightarrow> matcher" where
  "iter_lazy 0 f s c = [(s, c)]"
| "iter_lazy (Suc n) f s c =
     (s, c) # concat (map (\<lambda>(s', c'). if length s' < length s then iter_lazy n f s' c' else [])
                          (f s c))"

primrec rm :: "regex \<Rightarrow> matcher" where
  "rm (Sym p) s c = (case s of [] \<Rightarrow> [] | x # xs \<Rightarrow> if p x then [(xs, c)] else [])"
| "rm (Lit w) s c = (if startswith s w then [(drop (length w) s, c)] else [])"
| "rm (Seq a b) s c = concat (map (\<lambda>(s', c'). rm b s' c') (rm a s c))"
| "rm (Alt a b) s c = rm a s c @ rm b s c"
| "rm (Opt a) s c = rm a s c @ [(s, c)]"
| "rm (Star a) s c = iter_greedy (length s) (rm a) s c"
| "rm (Plus a) s c =
     concat (map (\<lambda>(s', c'). iter_greedy (length s') (rm a) s' c') (rm a s c))"
| "rm (LazyStar a) s c = iter_lazy (length s) (rm a) s c"
| "rm (Group n a) s c =
     map (\<lambda>(s', c'). (s', (n, take (length s - length s') s) # c')) (rm a s c)"

fun cat :: "regex list \<Rightarrow> regex" where
  "cat [] = Lit []"
| "cat [r] = r"
| "cat (r # rs) = Seq r (cat rs)"

fun alts :: "regex list \<Rightarrow> regex" where
  "alts [] = Sym (\<lambda>c. False)"
| "alts [r] = r"
| "alts (r # rs) = Alt r (alts rs)"

primrec group_names :: "regex \<Rightarrow> string list" where
  "group_names (Sym p) = []"
| "group_names (Lit w) = []"
| "group_names (Seq a b) = group_names a @ group_names b"
| "group_names (Alt a b) = group_names a @ group_names b"
| "group_names (Opt a) = group_names a"
| "group_names (Star a) = group_names a"
| "group_names (Plus a) = group_names a"
| "group_names (LazyStar a) = group_names a"
| "group_names (Group n a) = n # group_names a"

text \<open>
  A match object: where the match starts, the matched text (\<open>group(0)\<close>), the names of
  the pattern's groups and the groups that took part in the match.
\<close>

record rmatch =
  m_start :: nat
  m_text :: pystr
  m_names :: "string list"
  m_groups :: caps

text \<open>
  \<open>pattern.finditer(content)\<close>: the matches from left to right without overlap. After a
  match the scan goes on where the match ended, after a failure one character further.
  The second argument is the position of the rest of the text.
\<close>

function scan :: "regex \<Rightarrow> nat \<Rightarrow> pystr \<Rightarrow> rmatch list" where
  "scan r p s =
     (case rm r s [] of
        [] \<Rightarrow> (case s of [] \<Rightarrow> [] | x # xs \<Rightarrow> scan r (Suc p) xs)
      | (s', c) # alternatives \<Rightarrow>
          \<lparr>m_start = p, m_text = take (length s - length s') s,
           m_names = group_names r, m_groups = c\<rparr> #
          (if length s' < length s then scan r (p + (length s - length s')) s'
           else (case s of [] \<Rightarrow> [] | x # xs \<Rightarrow> scan r (Suc p) xs)))"
  by pat_completeness auto
termination
  by (relation "measure (\<lambda>(r, p, s). length s)") auto

definition finditer :: "regex \<Rightarrow> pystr \<Rightarrow> rmatch list" where
  "finditer r content = scan r 0 content"

datatype error = IndexError | ValueError | AttributeError | TypeError

text \<open>
  \<open>match.group(name)\<close> raises IndexError for a name the pattern does not have and is None
  for a group that took no part in the match. With several names the result is a tuple.
\<close>

definition group :: "rmatch \<Rightarrow> string \<Rightarrow> error + pystr option" where
  "group m n = (if n \<in> set (m_names m) then Inr (map_of (m_groups m) n) else Inl IndexError)"

definition group_tuple :: "rmatch \<Rightarrow> string list \<Rightarrow> error + pystr option list" where
  "group_tuple m ns =
     (if list_all (\<lambda>n. n \<in> set (m_names m)) ns then Inr (map (map_of (m_groups m)) ns)
      else Inl IndexError)"

text \<open>\<open>match.group(name)\<close> for a name that is a group of the pattern.\<close>

definition grp :: "rmatch \<Rightarrow> string \<Rightarrow> pystr option" where
  "grp m n = map_of (m_groups m) n"

section \<open>java_parser.py\<close>

record method_info =
  mi_name :: pystr
  return_type :: pystr
  parameters :: "(pystr \<times> pystr) list"
  throws :: "pystr list"

record java_element =
  e_type :: string
  e_name :: "pystr option"
  e_content :: pystr
  line_number :: int
  existing_comment :: "pystr option"
  e_method_info :: "method_info option"

definition space :: regex where
  "space = Sym isspace"

definition word :: regex where
  "word = Sym is_word"

definition any_char :: regex where
  "any_char = Sym (\<lambda>c. True)"

definition not_char :: "string \<Rightarrow> regex" where
  "not_char cs = Sym (\<lambda>c. c \<notin> set (U cs))"

text \<open>The optional JavaDoc comment and the annotations, the same in both patterns.\<close>

definition comment_group :: regex where
  "comment_group =
     Opt (Group ''comment'' (cat [Lit (U ''/**''), LazyStar any_char, Lit (U ''*/''), Star space]))"

definition annotations_group :: regex where
  "annotations_group =
     Group ''annotations''
       (Star (cat [Lit (U ''@''), Plus word,
                   Opt (cat [Lit (U ''(''), Star (not_char '')''), Lit (U '')'')]),
                   Star space]))"

text \<open>\<open>\w+(?:\s*\.\s*\w+)*\<close>\<close>

definition dotted_name :: regex where
  "dotted_name = cat [Plus word, Star (cat [Star space, Lit (U ''.''), Star space, Plus word])]"

definition class_pattern :: regex where
  "class_pattern =
     cat [comment_group,
          annotations_group,
          Star (Group ''modifiers''
                  (cat [alts (map (\<lambda>w. Lit (U w))
                          [''public'', ''private'', ''protected'', ''static'', ''final'', ''abstract'']),
                        Plus space])),
          Lit (U ''class''), Plus space,
          Group ''name'' (Plus word),
          Opt (cat [Plus space, Lit (U ''extends''), Plus space, dotted_name]),
          Opt (cat [Plus space, Lit (U ''implements''), Plus space, dotted_name,
                    Star (cat [Star space, Lit (U '',''), Star space, dotted_name])]),
          Star space,
          Lit (U ''{'')]"

definition method_pattern :: regex where
  "method_pattern =
     cat [comment_group,
          annotations_group,
          Star (Group ''modifiers''
                  (cat [alts (map (\<lambda>w. Lit (U w))
                          [''public'', ''private'', ''protected'', ''static'', ''final'',
                           ''synchronized'', ''abstract'']),
                        Plus space])),
          Opt (Group ''return_type''
                 (cat [Plus (Sym (\<lambda>c. is_word c \<or> c = 46)),
                       Opt (cat [Lit (U ''<''), Plus (not_char ''>''), Lit (U ''>'')]),
                       Star (Lit (U ''[]'')),
                       Plus space])),
          Group ''name'' (Plus word), Star space,
          Lit (U ''(''), Group ''params'' (Star (not_char '')'')), Lit (U '')''),
          Opt (cat [Plus space, Lit (U ''throws''), Plus space,
                    Group ''throws'' (Plus (Sym (\<lambda>c. is_word c \<or> isspace c \<or> c = 44)))]),
          Star space,
          Lit (U ''{'')]"

text \<open>\<open>re.sub(r'^\s*\*\s?', '', line)\<close>\<close>

definition sub_leading_star :: "pystr \<Rightarrow> pystr" where
  "sub_leading_star line =
     (case dropWhile isspace line of
        [] \<Rightarrow> line
      | x # r \<Rightarrow>
          if x = 42 then (case r of [] \<Rightarrow> [] | y # r' \<Rightarrow> if isspace y then r' else r)
          else line)"

definition clean_line :: "pystr \<Rightarrow> pystr" where
  "clean_line line = sub_leading_star (strip (replace (replace line (U ''/**'') []) (U ''*/'') []))"

definition extract_comment :: "pystr option \<Rightarrow> pystr option" where
  "extract_comment comment =
     (case comment of
        None \<Rightarrow> None
      | Some t \<Rightarrow>
          if t = [] then None
          else Some (join [10] (filter (\<lambda>l. l \<noteq> []) (map clean_line (split_on 10 t)))))"

text \<open>The truth value of an optional string: None and the empty string are false.\<close>

definition truthy :: "pystr option \<Rightarrow> bool" where
  "truthy x = (case x of None \<Rightarrow> False | Some t \<Rightarrow> t \<noteq> [])"

text \<open>
  \<open>_extract_method_info\<close>: the second statement of its \<open>try\<close> block is
  \<open>match.group('return_type', '').strip()\<close>. With two arguments \<open>group\<close> looks up two
  groups, and the method pattern has no group whose name is the empty string: the call
  raises IndexError. (Were it to return, the result would be a tuple, which has no
  \<open>strip\<close>.) Either exception is caught by \<open>except Exception\<close>, whose handler returns None,
  so the statements that build the dictionary are never reached.
\<close>

definition extract_method_info :: "rmatch \<Rightarrow> method_info option" where
  "extract_method_info m =
     (let name = grp m ''name'' in
      case group_tuple m [''return_type'', []] of
        Inl e \<Rightarrow> None
      | Inr t \<Rightarrow> None)"

definition line_of :: "pystr \<Rightarrow> nat \<Rightarrow> int" where
  "line_of content pos = int (count_nl (take pos content)) + 1"

text \<open>\<open>name.startswith(('get', 'set', 'is'))\<close>\<close>

definition is_accessor :: "pystr \<Rightarrow> bool" where
  "is_accessor n \<longleftrightarrow> startswith n (U ''get'') \<or> startswith n (U ''set'') \<or> startswith n (U ''is'')"

text \<open>The two loops of \<open>parse\<close>: what each match appends to \<open>elements\<close>.\<close>

definition class_element :: "pystr \<Rightarrow> rmatch \<Rightarrow> java_element list" where
  "class_element content m =
     (let class_name = grp m ''name'';
          class_comment = extract_comment (grp m ''comment'')
      in if truthy class_comment then []
         else [\<lparr>e_type = ''class'', e_name = class_name, e_content = m_text m,
                line_number = line_of content (m_start m),
                existing_comment = class_comment, e_method_info = None\<rparr>])"

definition method_element :: "pystr \<Rightarrow> rmatch \<Rightarrow> java_element list" where
  "method_element content m =
     (case extract_method_info m of
        None \<Rightarrow> []
      | Some info \<Rightarrow>
          (let method_comment = extract_comment (grp m ''comment'')
           in if truthy method_comment then []
              else if is_accessor (mi_name info) then []
              else [\<lparr>e_type = ''method'', e_name = Some (mi_name info), e_content = m_text m,
                     line_number = line_of content (m_start m),
                     existing_comment = method_comment, e_method_info = Some info\<rparr>]))"

definition parse :: "pystr \<Rightarrow> java_element list" where
  "parse content =
     sort_key line_number
       (concat (map (class_element content) (finditer class_pattern content)) @
        concat (map (method_element content) (finditer method_pattern content)))"

text \<open>
  \<open>parse_java_file\<close>, the second recognizer of the class, as it runs on the text of a
  file. The first iteration of its class loop unpacks \<open>match.groups()\<close> into two names and
  then builds a \<open>JavaElement\<close> with a keyword \<open>element_type\<close> the dataclass does not
  have; the method loop does the same; after the loops the function reads
  \<open>self.field_pattern\<close>, which \<open>__init__\<close> never sets. The field loop with its call of
  \<open>_is_inside_method\<close> is therefore never reached.
\<close>

definition groups :: "rmatch \<Rightarrow> pystr option list" where
  "groups m = map (map_of (m_groups m)) (m_names m)"

definition unpack2 :: "'a list \<Rightarrow> error + 'a \<times> 'a" where
  "unpack2 xs = (case xs of [a, b] \<Rightarrow> Inr (a, b) | _ \<Rightarrow> Inl ValueError)"

definition element_loop_body :: "rmatch \<Rightarrow> error + java_element" where
  "element_loop_body m =
     (case unpack2 (groups m) of
        Inl e \<Rightarrow> Inl e
      | Inr (a, b) \<Rightarrow> Inl TypeError)"

definition parse_java_file :: "pystr \<Rightarrow> error + java_element list" where
  "parse_java_file content =
     (case finditer class_pattern content of
        m # ms \<Rightarrow> (case element_loop_body m of Inl e \<Rightarrow> Inl e | Inr el \<Rightarrow> Inl TypeError)
      | [] \<Rightarrow>
          (case finditer method_pattern content of
             m # ms \<Rightarrow> (case element_loop_body m of Inl e \<Rightarrow> Inl e | Inr el \<Rightarrow> Inl TypeError)
           | [] \<Rightarrow> Inl AttributeError))"

definition is_inside_method :: "pystr \<Rightarrow> nat \<Rightarrow> bool" where
  "is_inside_method content position =
     (let before_content = take position content;
          open_braces = count_list before_content 123;
          close_braces = count_list before_content 125
      in open_braces > close_braces)"

text \<open>
  \<open>_extract_existing_comment\<close>: the lines before a position, read backwards. Lines of a
  block comment and \<open>//\<close> lines are collected, blank lines are passed over, any other line
  ends the walk.
\<close>

fun doc_lines_before :: "pystr list \<Rightarrow> pystr list \<Rightarrow> pystr list" where
  "doc_lines_before [] comment_lines = comment_lines"
| "doc_lines_before (line # lines) comment_lines =
     (let stripped_line = strip line
      in if startswith stripped_line (U ''/**'') \<or> startswith stripped_line (U ''*'') \<or>
            endswith stripped_line (U ''*/'')
         then doc_lines_before lines (line # comment_lines)
         else if startswith stripped_line (U ''//'')
         then doc_lines_before lines (line # comment_lines)
         else if stripped_line = [] then doc_lines_before lines comment_lines
         else comment_lines)"

definition extract_existing_comment :: "pystr \<Rightarrow> nat \<Rightarrow> pystr option" where
  "extract_existing_comment content position =
     (let lines_before = split_on 10 (take position content);
          comment_lines = doc_lines_before (rev lines_before) []
      in if comment_lines = [] then None else Some (join [10] comment_lines))"

section \<open>comment_generator.py\<close>

text \<open>
  The text-generation service is outside the program. A request either returns a text or
  raises an exception with a message; \<open>backend k\<close> is the outcome of the \<open>k\<close>-th request of
  the run, whatever its prompt. The state of the generator is the number of requests sent
  so far together with the waits of \<open>time.sleep\<close>, in order.
\<close>

datatype response = Text pystr | Failure pystr

type_synonym backend = "nat \<Rightarrow> response"

record gen_state =
  requests :: nat
  slept :: "nat list"

definition max_retries :: nat where
  "max_retries = 5"

definition retry_delay :: nat where
  "retry_delay = 15"

definition retry_multiplier :: nat where
  "retry_multiplier = 2"

definition fence :: pystr where
  "fence = [96, 96, 96]"

text \<open>One line between the first and the last in \<open>_format_comment\<close>.\<close>

definition format_line :: "pystr \<Rightarrow> pystr" where
  "format_line line =
     (let content = strip line;
          content = (if startswith content (U ''*'') then strip (drop 1 content) else content)
      in if content = [] then U '' *'' else U '' * '' @ content)"

definition format_comment :: "pystr \<Rightarrow> pystr" where
  "format_comment comment0 =
     (if comment0 = [] then []
      else
        let comment = strip (replace (replace comment0 (fence @ U ''java'') []) fence []);
            comment = (if \<not> startswith comment (U ''/**'')
                       then U ''/**'' @ [10] @ U '' * '' @ comment else comment);
            comment = (if \<not> endswith comment (U ''*/'')
                       then rstrip comment @ [10] @ U '' */'' else comment);
            lines = split_on 10 comment
        in join [10]
             (map (\<lambda>(i, line). if i = 0 then U ''/**''
                              else if i = length lines - 1 then U '' */''
                              else format_line line)
                  (enumerate 0 lines)))"

definition is_overloaded :: "pystr \<Rightarrow> bool" where
  "is_overloaded error_msg \<longleftrightarrow>
     contains error_msg (U ''overloaded_error'') \<or> contains error_msg (U ''529'')"

function call_claude_api :: "backend \<Rightarrow> nat \<Rightarrow> gen_state \<Rightarrow> pystr option \<times> gen_state" where
  "call_claude_api b retry_count st =
     (case b (requests st) of
        Text t \<Rightarrow> (Some (format_comment t), st\<lparr>requests := requests st + 1\<rparr>)
      | Failure error_msg \<Rightarrow>
          if is_overloaded error_msg \<and> retry_count < max_retries - 1
          then call_claude_api b (retry_count + 1)
                 (st\<lparr>requests := requests st + 1,
                     slept := slept st @ [retry_delay * retry_multiplier ^ retry_count]\<rparr>)
          else (None, st\<lparr>requests := requests st + 1\<rparr>))"
  by pat_completeness auto
termination
  by (relation "measure (\<lambda>(b, retry_count, st). max_retries - 1 - retry_count)") auto

text \<open>\<open>f"{element.name}"\<close>\<close>

definition str_of :: "pystr option \<Rightarrow> pystr" where
  "str_of x = (case x of None \<Rightarrow> U ''None'' | Some t \<Rightarrow> t)"

definition generate_class_comment :: "backend \<Rightarrow> java_element \<Rightarrow> gen_state \<Rightarrow> pystr \<times> gen_state" where
  "generate_class_comment b element st =
     (case call_claude_api b 0 st of
        (None, st') \<Rightarrow>
          (U ''/**'' @ [10] @ U '' * '' @ str_of (e_name element) @ [32, 53364, 47000, 49828] @
           [10] @ U '' */'', st')
      | (Some comment, st') \<Rightarrow> (comment, st'))"

definition generate_method_comment :: "backend \<Rightarrow> java_element \<Rightarrow> gen_state \<Rightarrow> pystr \<times> gen_state" where
  "generate_method_comment b element st =
     (case call_claude_api b 0 st of
        (None, st') \<Rightarrow>
          (U ''/**'' @ [10] @ U '' * '' @ str_of (e_name element) @ [32, 47700, 49548, 46300] @
           [10] @ U '' */'', st')
      | (Some comment, st') \<Rightarrow> (comment, st'))"

definition generate_field_comment :: "backend \<Rightarrow> java_element \<Rightarrow> gen_state \<Rightarrow> pystr \<times> gen_state" where
  "generate_field_comment b element st =
     (case b (requests st) of
        Text t \<Rightarrow>
          (let comment = replace (strip t) fence []
           in (if \<not> startswith comment (U ''//'') then U ''// '' @ comment else comment,
               st\<lparr>requests := requests st + 1\<rparr>))
      | Failure error_msg \<Rightarrow>
          (U ''// '' @ str_of (e_name element) @ [32, 54596, 46300],
           st\<lparr>requests := requests st + 1\<rparr>))"

definition generate_comment :: "backend \<Rightarrow> java_element \<Rightarrow> gen_state \<Rightarrow> pystr \<times> gen_state" where
  "generate_comment b element st =
     (if e_type element \<in> set [''class'', ''interface'', ''enum'']
      then generate_class_comment b element st
      else if e_type element = ''method'' then generate_method_comment b element st
      else if e_type element = ''field'' then generate_field_comment b element st
      else ([], st))"

section \<open>file_processor.py\<close>

text \<open>\<open>xs[i]\<close> and \<open>xs.insert(i, x)\<close> of a Python list, for any integer index.\<close>

definition py_index :: "'a list \<Rightarrow> int \<Rightarrow> error + 'a" where
  "py_index xs i =
     (let n = int (length xs); j = (if i < 0 then i + n else i)
      in if 0 \<le> j \<and> j < n then Inr (xs ! nat j) else Inl IndexError)"

definition py_insert :: "'a list \<Rightarrow> int \<Rightarrow> 'a \<Rightarrow> 'a list" where
  "py_insert xs i x =
     (let n = int (length xs);
          j = (if i < 0 then max 0 (i + n) else min i n)
      in take (nat j) xs @ [x] @ drop (nat j) xs)"

definition get_indent :: "pystr \<Rightarrow> nat" where
  "get_indent line = length line - length (lstrip line)"

definition indent_comment :: "pystr \<Rightarrow> pystr \<Rightarrow> pystr" where
  "indent_comment comment indent =
     join [10] (map (\<lambda>line. if strip line \<noteq> [] then indent @ line else line)
                    (splitlines comment))"

definition insert_comment :: "pystr list \<Rightarrow> int \<Rightarrow> pystr \<Rightarrow> pystr list" where
  "insert_comment lines position comment = py_insert lines position comment"

text \<open>The loop of \<open>process_java_file\<close> over the elements, on the line buffer.\<close>

fun insert_comments ::
  "backend \<Rightarrow> java_element list \<Rightarrow> pystr list \<times> gen_state \<Rightarrow> error + pystr list \<times> gen_state" where
  "insert_comments b [] (modified_lines, st) = Inr (modified_lines, st)"
| "insert_comments b (element # elements) (modified_lines, st) =
     (case generate_comment b element st of
        (comment, st') \<Rightarrow>
          (case py_index modified_lines (line_number element - 1) of
             Inl e \<Rightarrow> Inl e
           | Inr line \<Rightarrow>
               (let indent = get_indent line;
                    indented_comment = indent_comment comment (replicate indent 32)
                in insert_comments b elements
                     (insert_comment modified_lines (line_number element - 1) indented_comment,
                      st'))))"

text \<open>
  Reading a file in text mode turns \<open>\r\n\<close> and \<open>\r\<close> into \<open>\n\<close>; writing (on POSIX)
  writes the text as it is.
\<close>

fun universal_newlines :: "pystr \<Rightarrow> pystr" where
  "universal_newlines [] = []"
| "universal_newlines [x] = (if x = 13 then [10] else [x])"
| "universal_newlines (x # y # r) =
     (if x = 13 then (if y = 10 then 10 # universal_newlines r else 10 # universal_newlines (y # r))
      else x # universal_newlines (y # r))"

text \<open>
  \<open>process_java_file\<close> from the text of the file to the text written back; an exception
  leaves the file as it was.
\<close>

definition process_java_file :: "backend \<Rightarrow> gen_state \<Rightarrow> pystr \<Rightarrow> error + pystr \<times> gen_state" where
  "process_java_file b st file_text =
     (let content = universal_newlines file_text;
          content_lines = splitlines content;
          elements = parse content
      in case insert_comments b elements (content_lines, st) of
           Inl e \<Rightarrow> Inl e
         | Inr (modified_lines, st') \<Rightarrow> Inr (join [10] modified_lines, st'))"

section \<open>The retry loop of the generator\<close>

declare call_claude_api.simps [simp del]

lemma map_upt_shift: "map f [0..<Suc j] = f 0 # map (\<lambda>i. f (Suc i)) [0..<j]"
  by (simp only: upt_conv_Cons [of 0 "Suc j"] map_Suc_upt [symmetric]) (simp add: comp_def)

text \<open>
  A call that starts with \<open>retry_count = r\<close> and meets \<open>j\<close> overload failures in a row: it
  sends \<open>j + 1\<close> requests, sleeps after each of the first \<open>j\<close>, and its result is decided by
  the last response alone.
\<close>

lemma call_from:
  "r + j \<le> 4 \<Longrightarrow>
   (\<forall>i<j. \<exists>m. b (requests st + i) = Failure m \<and> is_overloaded m) \<Longrightarrow>
   (r + j < 4 \<longrightarrow> (\<forall>m. b (requests st + j) = Failure m \<longrightarrow> \<not> is_overloaded m)) \<Longrightarrow>
   call_claude_api b r st =
     (case b (requests st + j) of Text t \<Rightarrow> Some (format_comment t) | Failure m \<Rightarrow> None,
      st\<lparr>requests := requests st + j + 1,
         slept := slept st @ map (\<lambda>i. retry_delay * retry_multiplier ^ (r + i)) [0..<j]\<rparr>)"
proof (induction j arbitrary: r st)
  case 0
  then show ?case
    by (subst call_claude_api.simps) (auto simp: max_retries_def split: response.splits)
next
  case (Suc j)
  from Suc.prems(2) obtain m where m: "b (requests st) = Failure m" "is_overloaded m"
    by force
  let ?st = "st\<lparr>requests := requests st + 1,
                 slept := slept st @ [retry_delay * retry_multiplier ^ r]\<rparr>"
  have step: "call_claude_api b r st = call_claude_api b (r + 1) ?st"
    using m Suc.prems(1) by (subst call_claude_api.simps) (simp add: max_retries_def)
  have a: "r + 1 + j \<le> 4" using Suc.prems(1) by simp
  have b: "\<forall>i<j. \<exists>m. b (requests ?st + i) = Failure m \<and> is_overloaded m"
    using Suc.prems(2) by (auto dest: spec [of _ "Suc i" for i])
  have c: "r + 1 + j < 4 \<longrightarrow> (\<forall>m. b (requests ?st + j) = Failure m \<longrightarrow> \<not> is_overloaded m)"
    using Suc.prems(3) by simp
  show ?case
    unfolding step Suc.IH [OF a b c]
    by (simp add: map_upt_shift del: upt_Suc)
qed

lemma waits:
  "j \<le> 4 \<Longrightarrow> map (\<lambda>i. retry_delay * retry_multiplier ^ i) [0..<j] = take j [15, 30, 60, 120]"
proof -
  assume "j \<le> 4"
  then consider "j = 0" | "j = 1" | "j = 2" | "j = 3" | "j = 4" by linarith
  then show ?thesis
    by cases (simp_all add: retry_delay_def retry_multiplier_def upt_conv_Cons)
qed

lemma call_all_fail:
  "(\<And>k. \<exists>m. b k = Failure m) \<Longrightarrow> fst (call_claude_api b r st) = None"
proof (induction b r st rule: call_claude_api.induct)
  case (1 b retry_count st)
  from 1(2) obtain m where m: "b (requests st) = Failure m" by blast
  show ?case
    using 1 m by (subst call_claude_api.simps) simp
qed

text \<open>
  Claim C6. A generation call whose first \<open>j\<close> requests (\<open>j \<le> 4\<close>) fail with an overload
  message, and whose next request is the fifth or does not fail with one, sends exactly
  \<open>j + 1\<close> requests, at most five, and has slept the first \<open>j\<close> of the waits 15, 30, 60,
  120 between them. A failure that is not an overload therefore ends the call at once. The
  call returns a value in every case: the formatted text of the last response, or None
  when that response is a failure, and on None the class and method generators return
  their placeholder.
\<close>

theorem retry_policy:
  assumes "j \<le> 4"
    and "\<forall>i<j. \<exists>m. b (requests st + i) = Failure m \<and> is_overloaded m"
    and "j < 4 \<longrightarrow> (\<forall>m. b (requests st + j) = Failure m \<longrightarrow> \<not> is_overloaded m)"
  shows "call_claude_api b 0 st =
           (case b (requests st + j) of Text t \<Rightarrow> Some (format_comment t) | Failure m \<Rightarrow> None,
            \<lparr>requests = requests st + j + 1, slept = slept st @ take j [15, 30, 60, 120]\<rparr>) \<and>
         fst (generate_class_comment b e st) =
           (case b (requests st + j) of
              Text t \<Rightarrow> format_comment t
            | Failure m \<Rightarrow> U ''/**'' @ [10] @ U '' * '' @ str_of (e_name e) @
                           [32, 53364, 47000, 49828] @ [10] @ U '' */'') \<and>
         fst (generate_method_comment b e st) =
           (case b (requests st + j) of
              Text t \<Rightarrow> format_comment t
            | Failure m \<Rightarrow> U ''/**'' @ [10] @ U '' * '' @ str_of (e_name e) @
                           [32, 47700, 49548, 46300] @ [10] @ U '' */'')"
proof -
  have call: "call_claude_api b 0 st =
           (case b (requests st + j) of Text t \<Rightarrow> Some (format_comment t) | Failure m \<Rightarrow> None,
            \<lparr>requests = requests st + j + 1, slept = slept st @ take j [15, 30, 60, 120]\<rparr>)"
    using call_from [of 0 j b st] assms waits [of j] by simp
  show ?thesis
    by (simp add: call generate_class_comment_def generate_method_comment_def
          split: response.splits)
qed

theorem retry_policy_witness:
  "is_overloaded (U ''Error code: 529 overloaded_error'') \<and>
   \<not> is_overloaded (U ''Error code: 401 unauthorized'') \<and>
   call_claude_api (\<lambda>k. Failure (U ''Error code: 529 overloaded_error'')) 0
       \<lparr>requests = 0, slept = []\<rparr> =
     (None, \<lparr>requests = 5, slept = [15, 30, 60, 120]\<rparr>) \<and>
   call_claude_api (\<lambda>k. if k < 2 then Failure (U ''Error code: 529 overloaded_error'')
                         else Failure (U ''Error code: 401 unauthorized'')) 0
       \<lparr>requests = 0, slept = []\<rparr> =
     (None, \<lparr>requests = 3, slept = [15, 30]\<rparr>)"
proof -
  have t: "is_overloaded (U ''Error code: 529 overloaded_error'')"
    by (simp add: is_overloaded_def U_def)
  have p: "\<not> is_overloaded (U ''Error code: 401 unauthorized'')"
    by (simp add: is_overloaded_def U_def)
  show ?thesis
    using t p
      retry_policy [of 4 "\<lambda>k. Failure (U ''Error code: 529 overloaded_error'')"
                       "\<lparr>requests = 0, slept = []\<rparr>"]
      retry_policy [of 2 "\<lambda>k. if k < 2 then Failure (U ''Error code: 529 overloaded_error'')
                                 else Failure (U ''Error code: 401 unauthorized'')"
                       "\<lparr>requests = 0, slept = []\<rparr>"]
    by simp
qed

end
